theory Spec2Isabelle
  imports Main "HOL-Library.Sublist" "HOL-Library.Char_ord" "HOL-Library.List_Lexorder"
begin

section \<open>The toolbox control panel (\<^verbatim>\<open>toolbox/ui.py\<close>)\<close>

text \<open>
  The class \<^verbatim>\<open>UI\<close> is a Qt dialog. Its methods mutate the fields of \<^verbatim>\<open>self\<close>;
  here the fields a method reads or writes are a record, every method takes the record
  and returns the updated one, and a raised exception is a value that carries the
  record as it was when the exception left the method.

  Python strings are \<^typ>\<open>string\<close>, Python integers are \<^typ>\<open>int\<close> or \<^typ>\<open>nat\<close> where
  they are lengths or loop counters, spectrograms, embedding vectors and plot
  coordinates are type parameters (their contents are never inspected by this module).
\<close>

subsection \<open>Class constants\<close>

definition min_umap_points :: nat where
  "min_umap_points = 4"

definition max_log_lines :: nat where
  "max_log_lines = 5"

definition max_log_width :: nat where
  "max_log_width = 100"

definition max_saved_utterances :: nat where
  "max_saved_utterances = 20"

text \<open>
  The module-level \<^verbatim>\<open>colormap\<close>: fourteen RGB rows. The source divides every entry
  by 255; the rows are kept here as the integers written in the file.
\<close>

definition colormap :: "(nat \<times> nat \<times> nat) list" where
  "colormap =
    [(0, 127, 70), (255, 0, 0), (255, 217, 38), (0, 135, 255), (165, 0, 165),
     (255, 167, 255), (97, 142, 151), (0, 255, 255), (255, 96, 38), (142, 76, 0),
     (33, 0, 127), (0, 0, 0), (183, 183, 183), (76, 255, 0)]"

subsection \<open>Exceptions and results\<close>

datatype py_error =
    IndexError
  | AttributeError
  | ZeroDivisionError
  | KeyError
  | Exception string
  | ExternalError string

text \<open>
  \<open>Return s\<close>: the method ran to its end and left the state \<open>s\<close>.
  \<open>Raise e s\<close>: the exception \<open>e\<close> left the method, and \<open>s\<close> is the state at that
  moment (what the method had already written stays written).
\<close>

datatype 's result = Return 's | Raise py_error 's

fun state_of :: "'s result \<Rightarrow> 's" where
  "state_of (Return s) = s"
| "state_of (Raise e s) = s"

fun raised :: "'s result \<Rightarrow> bool" where
  "raised (Return s) = False"
| "raised (Raise e s) = True"

fun and_then :: "'s result \<Rightarrow> ('s \<Rightarrow> 's result) \<Rightarrow> 's result" where
  "and_then (Return s) f = f s"
| "and_then (Raise e s) f = Raise e s"

subsection \<open>Python sequences\<close>

text \<open>
  A slice bound of Python: a negative bound counts from the end, and every bound is
  clamped to the sequence.
\<close>

definition slice_bound :: "nat \<Rightarrow> int \<Rightarrow> nat" where
  "slice_bound n i = (if i < 0 then nat (max 0 (int n + i)) else min n (nat i))"

text \<open>\<^verbatim>\<open>xs[a:b]\<close> and \<^verbatim>\<open>xs[a:]\<close>.\<close>

definition slice :: "'a list \<Rightarrow> int \<Rightarrow> int \<Rightarrow> 'a list" where
  "slice xs a b =
     (let lo = slice_bound (length xs) a; hi = slice_bound (length xs) b
      in take (hi - lo) (drop lo xs))"

definition slice_from :: "'a list \<Rightarrow> int \<Rightarrow> 'a list" where
  "slice_from xs a = drop (slice_bound (length xs) a) xs"

text \<open>\<^verbatim>\<open>sep.join(xs)\<close>.\<close>

fun join :: "string \<Rightarrow> string list \<Rightarrow> string" where
  "join sep [] = []"
| "join sep [x] = x"
| "join sep (x # y # ys) = x @ sep @ join sep (y # ys)"

text \<open>\<^verbatim>\<open>sub in s\<close> on strings.\<close>

fun contains :: "string \<Rightarrow> string \<Rightarrow> bool" where
  "contains sub [] = (sub = [])"
| "contains sub (c # cs) = (prefix sub (c # cs) \<or> contains sub cs)"

subsection \<open>Paths\<close>

text \<open>
  A \<^verbatim>\<open>pathlib.Path\<close> is its list of components. \<^verbatim>\<open>joinpath\<close> appends components,
  \<^verbatim>\<open>relative_to\<close> removes a leading root, \<^verbatim>\<open>parent\<close> drops the last component,
  \<^verbatim>\<open>name\<close> is the last component, \<^verbatim>\<open>str\<close> joins the components with a slash.
  A relative name given as one string (a dataset name such as
  \<^verbatim>\<open>LibriSpeech/dev-clean\<close>) is kept as one component.
\<close>

type_synonym path = "string list"

definition joinpath :: "path \<Rightarrow> string list \<Rightarrow> path" where
  "joinpath root names = root @ filter (\<lambda>c. c \<noteq> []) names"

definition relative_to :: "path \<Rightarrow> path \<Rightarrow> path" where
  "relative_to p root = drop (length root) p"

definition parent :: "path \<Rightarrow> path" where
  "parent p = butlast p"

definition path_name :: "path \<Rightarrow> string" where
  "path_name p = (if p = [] then [] else last p)"

definition path_str :: "path \<Rightarrow> string" where
  "path_str p = join ''/'' p"

text \<open>
  \<^verbatim>\<open>Path(s)\<close> for a string: the components between slashes, without the empty ones
  and the single dots.
\<close>

fun split_on :: "char \<Rightarrow> string \<Rightarrow> string list" where
  "split_on sep [] = [[]]"
| "split_on sep (c # cs) =
     (if c = sep then [] # split_on sep cs
      else (case split_on sep cs of [] \<Rightarrow> [[c]] | w # ws \<Rightarrow> (c # w) # ws))"

definition path_of_str :: "string \<Rightarrow> path" where
  "path_of_str s = filter (\<lambda>c. c \<noteq> [] \<and> c \<noteq> ''.'') (split_on CHR ''/'' s)"

text \<open>
  \<^verbatim>\<open>suffix\<close> and \<^verbatim>\<open>stem\<close> as pathlib computes them from the name: with \<open>i\<close> the
  position of the last dot, the suffix is \<^verbatim>\<open>name[i:]\<close> when \<open>0 < i < len(name) - 1\<close>
  and empty otherwise, and the stem is the rest of the name.
\<close>

definition rfind :: "char \<Rightarrow> string \<Rightarrow> int" where
  "rfind c s =
     (case filter (\<lambda>i. s ! i = c) (rev [0..<length s]) of [] \<Rightarrow> -1 | i # _ \<Rightarrow> int i)"

definition path_suffix :: "path \<Rightarrow> string" where
  "path_suffix p =
     (let nm = path_name p; i = rfind CHR ''.'' nm
      in if 0 < i \<and> i < int (length nm) - 1 then drop (nat i) nm else [])"

definition path_stem :: "path \<Rightarrow> string" where
  "path_stem p =
     (let nm = path_name p; i = rfind CHR ''.'' nm
      in if 0 < i \<and> i < int (length nm) - 1 then take (nat i) nm else nm)"

text \<open>
  What the module asks of the file system: whether a path exists, whether it is a
  directory, and \<^verbatim>\<open>Path.glob(pattern)\<close>.
\<close>

record filesystem =
  path_exists :: "path \<Rightarrow> bool"
  is_dir :: "path \<Rightarrow> bool"
  glob :: "path \<Rightarrow> string \<Rightarrow> path list"

subsection \<open>Qt widgets\<close>

text \<open>
  A \<^verbatim>\<open>QComboBox\<close> as this module uses it: the rows in display order, each a text
  with optional user data, the current index (\<open>-1\<close> when nothing is selected) and the
  disabled flag. The operations follow the documented behaviour of the Qt class:
  inserting into an empty box selects the new row, inserting at or before the current
  row moves the current index along with its row, removing a row before the current
  one does the same, and an index outside the box selects nothing.
\<close>

record 'd combobox =
  rows :: "(string \<times> 'd option) list"
  currentIndex :: int
  disabled :: bool

definition empty_box :: "'d combobox" where
  "empty_box = \<lparr>rows = [], currentIndex = -1, disabled = False\<rparr>"

definition box_count :: "'d combobox \<Rightarrow> nat" where
  "box_count box = length (rows box)"

definition valid_index :: "'d combobox \<Rightarrow> int \<Rightarrow> bool" where
  "valid_index box i = (0 \<le> i \<and> i < int (box_count box))"

definition clear :: "'d combobox \<Rightarrow> 'd combobox" where
  "clear box = box\<lparr>rows := [], currentIndex := -1\<rparr>"

text \<open>\<^verbatim>\<open>insertItem(index, text, userData)\<close>; an index past the end appends.\<close>

definition insertItem :: "nat \<Rightarrow> string \<Rightarrow> 'd option \<Rightarrow> 'd combobox \<Rightarrow> 'd combobox" where
  "insertItem i text_i d box =
     (let k = min i (box_count box)
      in box\<lparr>rows := take k (rows box) @ [(text_i, d)] @ drop k (rows box),
              currentIndex :=
                (if rows box = [] then 0
                 else if int k \<le> currentIndex box then currentIndex box + 1
                 else currentIndex box)\<rparr>)"

definition addItem :: "string \<Rightarrow> 'd option \<Rightarrow> 'd combobox \<Rightarrow> 'd combobox" where
  "addItem text_i d box = insertItem (box_count box) text_i d box"

text \<open>\<^verbatim>\<open>removeItem(index)\<close>; an index outside the box does nothing.\<close>

definition removeItem :: "nat \<Rightarrow> 'd combobox \<Rightarrow> 'd combobox" where
  "removeItem i box =
     (if i < box_count box
      then box\<lparr>rows := take i (rows box) @ drop (Suc i) (rows box),
               currentIndex :=
                 (if int i < currentIndex box then currentIndex box - 1
                  else if int i = currentIndex box
                  then (if Suc i < box_count box then currentIndex box
                        else currentIndex box - 1)
                  else currentIndex box)\<rparr>
      else box)"

definition setCurrentIndex :: "int \<Rightarrow> 'd combobox \<Rightarrow> 'd combobox" where
  "setCurrentIndex i box = box\<lparr>currentIndex := (if valid_index box i then i else -1)\<rparr>"

definition setDisabled :: "bool \<Rightarrow> 'd combobox \<Rightarrow> 'd combobox" where
  "setDisabled b box = box\<lparr>disabled := b\<rparr>"

text \<open>\<^verbatim>\<open>itemData(index)\<close> is \<^verbatim>\<open>None\<close> for a row without data and for an invalid index.\<close>

definition itemData :: "'d combobox \<Rightarrow> int \<Rightarrow> 'd option" where
  "itemData box i = (if valid_index box i then snd (rows box ! nat i) else None)"

definition currentText :: "'d combobox \<Rightarrow> string" where
  "currentText box =
     (if valid_index box (currentIndex box) then fst (rows box ! nat (currentIndex box))
      else [])"

text \<open>
  The progress bar, and a matplotlib axes as the list of what was drawn on it since
  the last \<^verbatim>\<open>clear()\<close> together with its title. Aspect, tick and canvas refresh
  calls change nothing that is read back and are left out.
\<close>

record loading_bar =
  bar_value :: int
  bar_maximum :: int
  textVisible :: bool

datatype marker = Cross | Circle

datatype 'c artist =
    Text string
  | Scatter 'c 'c "nat \<times> nat \<times> nat" marker

record 'c axes =
  artists :: "'c artist list"
  title :: string

definition ax_clear :: "'c axes \<Rightarrow> 'c axes" where
  "ax_clear ax = \<lparr>artists = [], title = []\<rparr>"

subsection \<open>Utterances\<close>

text \<open>
  Modelled from the spec: the class \<^verbatim>\<open>Utterance\<close> of \<^verbatim>\<open>toolbox/utterance.py\<close>,
  which this file imports and whose fields it reads: a name, a speaker label, a
  spectrogram, a speaker embedding and an optional emotion embedding.
\<close>

record ('m, 'v) utterance =
  name :: string
  speaker_name :: string
  spec :: 'm
  speaker_embed :: 'v
  emotion_embed :: "'v option"

subsection \<open>The state of the dialog\<close>

text \<open>
  The fields of \<^verbatim>\<open>self\<close> that the methods below read or write. A button or checkbox
  is its disabled flag. \<open>first_time_notices\<close> is not a field of the source: it counts
  how often \<^verbatim>\<open>draw_umap_projections\<close> has run its "first time" branch, so that a
  statement about the whole session can speak of it.
\<close>

record ('m, 'v, 'c) ui =
  logs :: "string list"
  log_window :: string
  umap_hot :: bool
  first_time_notices :: nat
  loading :: loading_bar
  speaker_umap_ax :: "'c axes"
  emotion_umap_ax :: "'c axes"
  utterance_history :: "('m, 'v) utterance combobox"
  dataset_box :: "path combobox"
  speaker_box :: "path combobox"
  utterance_box :: "path combobox"
  speaker_encoder_box :: "path combobox"
  emotion_encoder_box :: "path combobox"
  synthesizer_box :: "path combobox"
  vocoder_box :: "path combobox"
  play_button :: bool
  generate_button :: bool
  synthesize_button :: bool
  vocode_button :: bool
  replay_wav_button :: bool
  export_wav_button :: bool
  browser_load_button :: bool
  random_dataset_button :: bool
  random_speaker_button :: bool
  random_utterance_button :: bool
  auto_next_checkbox :: bool

subsection \<open>\<^verbatim>\<open>UI.log\<close>\<close>

text \<open>
  The loop of the long-line branch: for every \<open>l\<close> of \<^verbatim>\<open>range(num_lines)\<close> append the
  slice \<^verbatim>\<open>line[l*w : (l+1)*w]\<close> and drop the first entry when the buffer has grown
  past \<^verbatim>\<open>max_log_lines\<close>.
\<close>

definition evict :: "string list \<Rightarrow> string list" where
  "evict buf = (if length buf > max_log_lines then tl buf else buf)"

fun wrap_loop :: "string \<Rightarrow> nat list \<Rightarrow> string list \<Rightarrow> string list" where
  "wrap_loop line [] buf = buf"
| "wrap_loop line (l # ls) buf =
     wrap_loop line ls
       (evict (buf @ [slice line (int (l * max_log_width)) (int ((l + 1) * max_log_width))]))"

definition log_newline :: "string \<Rightarrow> string list \<Rightarrow> string list" where
  "log_newline line buf =
     evict
       (if length line > max_log_width
        then (let num_lines = length line div max_log_width;
                  res = length line - (length line div max_log_width) * max_log_width
              in wrap_loop line [0..<num_lines] buf @ [slice_from line (- int res - 1)])
        else buf @ [line])"

text \<open>
  The tail of the method: the window shows the buffer joined by newlines.
  \<^verbatim>\<open>processEvents()\<close> is left out.
\<close>

definition show_logs :: "('m, 'v, 'c) ui \<Rightarrow> ('m, 'v, 'c) ui" where
  "show_logs st = st\<lparr>log_window := join [CHR 0x0A] (logs st)\<rparr>"

text \<open>
  \<^verbatim>\<open>self.logs[-1]\<close> of an empty buffer raises \<^verbatim>\<open>IndexError\<close> before anything is
  written. A mode other than the three changes no entry and still refreshes the window.
\<close>

definition log :: "string \<Rightarrow> string \<Rightarrow> ('m, 'v, 'c) ui \<Rightarrow> ('m, 'v, 'c) ui result" where
  "log line mode st =
     (if mode = ''newline''
      then Return (show_logs (st\<lparr>logs := log_newline line (logs st)\<rparr>))
      else if mode = ''append''
      then (if logs st = [] then Raise IndexError st
            else Return (show_logs (st\<lparr>logs := butlast (logs st) @ [last (logs st) @ line]\<rparr>)))
      else if mode = ''overwrite''
      then (if logs st = [] then Raise IndexError st
            else Return (show_logs (st\<lparr>logs := butlast (logs st) @ [line]\<rparr>)))
      else Return (show_logs st))"

subsection \<open>\<^verbatim>\<open>UI.set_loading\<close>, \<^verbatim>\<open>UI.draw_spec\<close>, \<^verbatim>\<open>UI.draw_embed\<close>\<close>

definition set_loading :: "int \<Rightarrow> int \<Rightarrow> ('m, 'v, 'c) ui \<Rightarrow> ('m, 'v, 'c) ui" where
  "set_loading v maximum st =
     st\<lparr>loading := \<lparr>bar_value = v * 100, bar_maximum = maximum * 100, textVisible = (v \<noteq> 0)\<rparr>\<rparr>"

text \<open>
  The two methods draw on the axes of the current and of the generated utterance, which
  are not among the fields above; what is left of \<^verbatim>\<open>draw_spec\<close> is the switch of the
  vocode button, what is left of \<^verbatim>\<open>draw_embed\<close> is nothing.
\<close>

definition draw_spec :: "'m option \<Rightarrow> string \<Rightarrow> ('m, 'v, 'c) ui \<Rightarrow> ('m, 'v, 'c) ui" where
  "draw_spec sp which st =
     (if which \<noteq> ''current'' then st\<lparr>vocode_button := (sp = None)\<rparr> else st)"

definition draw_embed ::
  "'v option \<Rightarrow> 'v option \<Rightarrow> string option \<Rightarrow> string \<Rightarrow> ('m, 'v, 'c) ui \<Rightarrow> ('m, 'v, 'c) ui" where
  "draw_embed sp_embed em_embed nm which st = st"

definition draw_utterance ::
  "('m, 'v) utterance \<Rightarrow> string \<Rightarrow> ('m, 'v, 'c) ui \<Rightarrow> ('m, 'v, 'c) ui" where
  "draw_utterance u which st =
     draw_embed (Some (speaker_embed u)) (emotion_embed u) (Some (name u)) which
       (draw_spec (Some (spec u)) which st)"

subsection \<open>\<^verbatim>\<open>UI.draw_umap_projections\<close>\<close>

text \<open>\<^verbatim>\<open>"%d" % n\<close> for a natural number.\<close>

fun str_nat :: "nat \<Rightarrow> string" where
  "str_nat n =
     (if n < 10 then [char_of (48 + n)]
      else str_nat (n div 10) @ [char_of (48 + n mod 10)])"

text \<open>\<^verbatim>\<open>int(np.ceil(np.sqrt(n)))\<close>: the least \<open>k\<close> with \<open>n \<le> k * k\<close>.\<close>

definition ceil_sqrt :: "nat \<Rightarrow> nat" where
  "ceil_sqrt n = length (takeWhile (\<lambda>k. k * k < n) [0..<Suc n])"

text \<open>
  \<^verbatim>\<open>np.unique\<close> of the speaker names (sorted, without repetitions), and the dictionary
  that gives the \<open>i\<close>-th of them the \<open>i\<close>-th row of the colormap. \<^verbatim>\<open>colormap[i]\<close>
  raises \<^verbatim>\<open>IndexError\<close> when there are more names than rows.
\<close>

definition unique :: "string list \<Rightarrow> string list" where
  "unique xs = sort (remdups xs)"

definition color_table :: "string list \<Rightarrow> (string \<times> nat \<times> nat \<times> nat) list option" where
  "color_table speakers =
     (if length speakers > length colormap then None else Some (zip speakers colormap))"

text \<open>\<^verbatim>\<open>[colors[k] for k in ks]\<close>; a missing key is \<^verbatim>\<open>KeyError\<close>, here \<open>None\<close>.\<close>

fun lookup_all :: "('k \<times> 'a) list \<Rightarrow> 'k list \<Rightarrow> 'a list option" where
  "lookup_all t [] = Some []"
| "lookup_all t (k # ks) =
     (case map_of t k of
        None \<Rightarrow> None
      | Some c \<Rightarrow> (case lookup_all t ks of None \<Rightarrow> None | Some cs \<Rightarrow> Some (c # cs)))"

definition marker_of :: "('m, 'v) utterance \<Rightarrow> marker" where
  "marker_of u = (if contains ''_gen_'' (name u) then Cross else Circle)"

text \<open>
  The external dimensionality reduction, \<^verbatim>\<open>umap.UMAP(k, metric="cosine").fit_transform\<close>:
  given the neighbour count and the embeddings it returns one coordinate pair per row
  of its result, or raises. The speaker embeddings are passed as present optional
  values so that one function serves both calls.
\<close>

type_synonym ('v, 'c) reducer = "nat \<Rightarrow> 'v option list \<Rightarrow> py_error + ('c \<times> 'c) list"

definition first_time_message :: string where
  "first_time_message =
     ''Drawing UMAP projections for the first time, this will take a few seconds.''"

text \<open>
  The loop over \<^verbatim>\<open>zip(projections[:, 0], projections[:, 1], colors, markers)\<close>: one
  scatter call and one progress update per tuple. \<open>upd\<close> applies a change to the axes
  the loop draws on.
\<close>

fun scatter_loop ::
  "(('c axes \<Rightarrow> 'c axes) \<Rightarrow> ('m, 'v, 'c) ui \<Rightarrow> ('m, 'v, 'c) ui) \<Rightarrow> nat \<Rightarrow> nat \<Rightarrow>
   (('c \<times> 'c) \<times> (nat \<times> nat \<times> nat) \<times> marker) list \<Rightarrow> ('m, 'v, 'c) ui \<Rightarrow> ('m, 'v, 'c) ui" where
  "scatter_loop upd n_rows i [] st = st"
| "scatter_loop upd n_rows i (((x, y), c, m) # ps) st =
     scatter_loop upd n_rows (i + 1) ps
       (set_loading (int (i + 1)) (int n_rows)
          (upd (\<lambda>ax. ax\<lparr>artists := artists ax @ [Scatter x y c m]\<rparr>) st))"

text \<open>
  One of the two halves of the method (the source writes the same block twice, once
  per axes): \<open>upd\<close> selects the axes, \<open>embeds\<close> are the embeddings of that half and
  \<open>ttl\<close> is its title.
\<close>

definition umap_block ::
  "('v, 'c) reducer \<Rightarrow>
   (('c axes \<Rightarrow> 'c axes) \<Rightarrow> ('m, 'v, 'c) ui \<Rightarrow> ('m, 'v, 'c) ui) \<Rightarrow>
   (('m, 'v) utterance \<Rightarrow> 'v option) \<Rightarrow> string \<Rightarrow>
   ('m, 'v) utterance list \<Rightarrow> ('m, 'v, 'c) ui \<Rightarrow> ('m, 'v, 'c) ui result" where
  "umap_block fit_transform upd embed_of ttl utterances st0 =
     (let st1 = upd ax_clear st0;
          speakers = unique (map speaker_name utterances)
      in case color_table speakers of
           None \<Rightarrow> Raise IndexError st1
         | Some colors \<Rightarrow>
             (let embeds = map embed_of utterances
              in if length utterances < min_umap_points
                 then Return
                        (upd (\<lambda>ax. ax\<lparr>artists := artists ax @
                            [Text (''Add '' @ str_nat (min_umap_points - length utterances) @
                                   '' more points to'' @ [CHR 0x0A] @
                                   ''generate the projections'')]\<rparr>) st1)
                 else and_then
                        (if \<not> umap_hot st1
                         then and_then (log first_time_message ''newline'' st1)
                                (\<lambda>s. Return (s\<lparr>umap_hot := True,
                                                 first_time_notices := first_time_notices s + 1\<rparr>))
                         else Return st1)
                        (\<lambda>st2.
                           case fit_transform (ceil_sqrt (length embeds)) embeds of
                             Inl e \<Rightarrow> Raise e st2
                           | Inr projections \<Rightarrow>
                               (case lookup_all colors (map speaker_name utterances) of
                                  None \<Rightarrow> Raise KeyError st2
                                | Some cs \<Rightarrow>
                                    Return
                                      (set_loading 0 1
                                         (upd (\<lambda>ax. ax\<lparr>title := ttl\<rparr>)
                                            (scatter_loop upd (length projections) 0
                                               (zip projections (zip cs (map marker_of utterances)))
                                               st2)))))))"

text \<open>
  The argument is the set of utterances as \<^verbatim>\<open>list(utterances)\<close> enumerates it.
\<close>

definition draw_umap_projections ::
  "('v, 'c) reducer \<Rightarrow> ('m, 'v) utterance list \<Rightarrow> ('m, 'v, 'c) ui \<Rightarrow> ('m, 'v, 'c) ui result" where
  "draw_umap_projections fit_transform utterances st =
     and_then
       (umap_block fit_transform speaker_umap_ax_update (\<lambda>u. Some (speaker_embed u))
          ''Speaker Embedding UMAP'' utterances st)
       (umap_block fit_transform emotion_umap_ax_update emotion_embed
          ''Emotion Embedding UMAP'' utterances)"

subsection \<open>\<^verbatim>\<open>UI.register_utterance\<close> and \<^verbatim>\<open>UI.selected_utterance\<close>\<close>

definition selected_utterance :: "('m, 'v, 'c) ui \<Rightarrow> ('m, 'v) utterance option" where
  "selected_utterance st =
     itemData (utterance_history st) (currentIndex (utterance_history st))"

definition register_utterance ::
  "('m, 'v) utterance \<Rightarrow> ('m, 'v, 'c) ui \<Rightarrow> ('m, 'v, 'c) ui" where
  "register_utterance u st =
     (let h1 = setCurrentIndex 0 (insertItem 0 (name u) (Some u) (utterance_history st));
          h2 = (if box_count h1 > max_saved_utterances
                then removeItem max_saved_utterances h1 else h1)
      in st\<lparr>utterance_history := h2,
             play_button := False, generate_button := False, synthesize_button := False\<rparr>)"

subsection \<open>\<^verbatim>\<open>UI.save_audio_file\<close>\<close>

text \<open>
  \<open>fpath\<close> is what the file dialog returned (empty when it was cancelled). The sound
  files written so far are the list of the calls of \<^verbatim>\<open>sf.write\<close>, latest last.
\<close>

definition save_audio_file ::
  "string \<Rightarrow> 'w \<Rightarrow> int \<Rightarrow> ('m, 'v, 'c) ui \<times> (string \<times> 'w \<times> int) list \<Rightarrow>
   ('m, 'v, 'c) ui \<times> (string \<times> 'w \<times> int) list" where
  "save_audio_file fpath wav sample_rate world =
     (case world of (st, written) \<Rightarrow>
        if fpath \<noteq> []
        then (st, written @
                [(if path_suffix (path_of_str fpath) = [] then fpath @ ''.wav'' else fpath,
                  wav, sample_rate)])
        else (st, written))"

subsection \<open>\<^verbatim>\<open>UI.repopulate_box\<close>, \<^verbatim>\<open>UI.populate_browser\<close>, \<^verbatim>\<open>UI.browser_select_next\<close>\<close>

text \<open>
  \<open>entries\<close> are the items with their first component already turned into text.
  \<open>r\<close> is the number \<^verbatim>\<open>np.random.randint(len(items))\<close> returns when it is called.
\<close>

definition repopulate_box ::
  "'d combobox \<Rightarrow> (string \<times> 'd option) list \<Rightarrow> bool \<Rightarrow> nat \<Rightarrow> 'd combobox" where
  "repopulate_box box entries random r =
     (let b1 = fold (\<lambda>(t, d). addItem t d) entries (clear box);
          b2 = (if length entries > 0
                then setCurrentIndex (if random then int r else 0) b1 else b1)
      in setDisabled (length entries = 0) b2)"

definition current_dataset_name :: "('m, 'v, 'c) ui \<Rightarrow> string" where
  "current_dataset_name st = currentText (dataset_box st)"

definition current_speaker_name :: "('m, 'v, 'c) ui \<Rightarrow> string" where
  "current_speaker_name st = currentText (speaker_box st)"

definition current_utterance_name :: "('m, 'v, 'c) ui \<Rightarrow> string" where
  "current_utterance_name st = currentText (utterance_box st)"

text \<open>
  The method in its three stages. \<^verbatim>\<open>datasets_root\<close> may be \<^verbatim>\<open>None\<close>; only the first
  stage tests for that, and \<^verbatim>\<open>None.joinpath\<close> in the later stages raises
  \<^verbatim>\<open>AttributeError\<close>. \<open>r1\<close>, \<open>r2\<close>, \<open>r3\<close> are the random indices of the three boxes.
\<close>

definition found_datasets :: "filesystem \<Rightarrow> path \<Rightarrow> string list \<Rightarrow> path list" where
  "found_datasets fs root recognized_datasets =
     map (\<lambda>d. relative_to d root)
       (filter (path_exists fs) (map (\<lambda>d. joinpath root [d]) recognized_datasets))"

definition found_speakers :: "filesystem \<Rightarrow> path \<Rightarrow> ('m, 'v, 'c) ui \<Rightarrow> string list" where
  "found_speakers fs root st =
     (let speakers_root = joinpath root [current_dataset_name st]
      in map path_stem (filter (is_dir fs) (glob fs speakers_root ''*'')))"

definition found_utterances :: "filesystem \<Rightarrow> path \<Rightarrow> ('m, 'v, 'c) ui \<Rightarrow> path list" where
  "found_utterances fs root st =
     (let utterances_root = joinpath root [current_dataset_name st, current_speaker_name st];
          utterances =
            concat (map (\<lambda>extension. glob fs utterances_root (''**/*.'' @ extension))
                      [''mp3'', ''flac'', ''wav'', ''m4a''])
      in map (\<lambda>fpath. relative_to fpath utterances_root) utterances)"

definition utterances_stage ::
  "filesystem \<Rightarrow> path option \<Rightarrow> int \<Rightarrow> bool \<Rightarrow> nat \<Rightarrow> ('m, 'v, 'c) ui \<Rightarrow> ('m, 'v, 'c) ui result" where
  "utterances_stage fs datasets_root level random r3 st =
     (if level \<le> 2
      then (case datasets_root of
              None \<Rightarrow> Raise AttributeError st
            | Some root \<Rightarrow>
                Return (st\<lparr>utterance_box :=
                  repopulate_box (utterance_box st)
                    (map (\<lambda>p. (path_str p, None)) (found_utterances fs root st)) random r3\<rparr>))
      else Return st)"

definition speakers_stage ::
  "filesystem \<Rightarrow> path option \<Rightarrow> int \<Rightarrow> bool \<Rightarrow> nat \<Rightarrow> nat \<Rightarrow> ('m, 'v, 'c) ui \<Rightarrow>
   ('m, 'v, 'c) ui result" where
  "speakers_stage fs datasets_root level random r2 r3 st =
     (if level \<le> 1
      then (case datasets_root of
              None \<Rightarrow> Raise AttributeError st
            | Some root \<Rightarrow>
                utterances_stage fs datasets_root level random r3
                  (st\<lparr>speaker_box :=
                     repopulate_box (speaker_box st)
                       (map (\<lambda>n. (n, None)) (found_speakers fs root st)) random r2\<rparr>))
      else utterances_stage fs datasets_root level random r3 st)"

definition no_datasets_message :: "path option \<Rightarrow> string" where
  "no_datasets_message datasets_root =
     ''Warning: you d'' @
     (case datasets_root of
        None \<Rightarrow> ''id not pass a root directory for datasets as argument''
      | Some root \<Rightarrow> ''o not have any of the recognized datasets in '' @ path_str root)"

definition populate_browser ::
  "filesystem \<Rightarrow> path option \<Rightarrow> string list \<Rightarrow> int \<Rightarrow> bool \<Rightarrow> nat \<times> nat \<times> nat \<Rightarrow>
   ('m, 'v, 'c) ui \<Rightarrow> ('m, 'v, 'c) ui result" where
  "populate_browser fs datasets_root recognized_datasets level random rs st =
     (case rs of (r1, r2, r3) \<Rightarrow>
        if level \<le> 0
        then (let datasets =
                    (case datasets_root of
                       None \<Rightarrow> []
                     | Some root \<Rightarrow> found_datasets fs root recognized_datasets);
                  st1 = (case datasets_root of
                           None \<Rightarrow> st
                         | Some root \<Rightarrow> st\<lparr>browser_load_button := (length datasets = 0)\<rparr>)
              in if datasets_root = None \<or> length datasets = 0
                 then and_then (log (no_datasets_message datasets_root) ''newline'' st1)
                        (\<lambda>s. Return (s\<lparr>random_utterance_button := True,
                                         random_speaker_button := True,
                                         random_dataset_button := True,
                                         utterance_box := setDisabled True (utterance_box s),
                                         speaker_box := setDisabled True (speaker_box s),
                                         dataset_box := setDisabled True (dataset_box s),
                                         browser_load_button := True,
                                         auto_next_checkbox := True\<rparr>))
                 else speakers_stage fs datasets_root level random r2 r3
                        (st1\<lparr>dataset_box :=
                           repopulate_box (dataset_box st1)
                             (map (\<lambda>d. (path_str d, None)) datasets) random r1\<rparr>))
        else speakers_stage fs datasets_root level random r2 r3 st)"

definition browser_select_next :: "('m, 'v, 'c) ui \<Rightarrow> ('m, 'v, 'c) ui result" where
  "browser_select_next st =
     (if box_count (utterance_box st) = 0 then Raise ZeroDivisionError st
      else Return (st\<lparr>utterance_box :=
             setCurrentIndex
               ((currentIndex (utterance_box st) + 1) mod int (box_count (utterance_box st)))
               (utterance_box st)\<rparr>))"

subsection \<open>\<^verbatim>\<open>UI.populate_models\<close>\<close>

definition populate_models ::
  "filesystem \<Rightarrow> string \<Rightarrow> path \<Rightarrow> ('m, 'v, 'c) ui \<Rightarrow> ('m, 'v, 'c) ui result" where
  "populate_models fs run_id models_dir st =
     (let speaker_encoder_fpaths = glob fs models_dir (run_id @ ''/encoder.pt'')
      in if length speaker_encoder_fpaths = 0
         then Raise (Exception (''No speaker encoder models found in '' @ path_str models_dir)) st
         else
           (let st1 = st\<lparr>speaker_encoder_box :=
                        repopulate_box (speaker_encoder_box st)
                          (map (\<lambda>f. (path_name (parent f), Some f)) speaker_encoder_fpaths)
                          False 0\<rparr>;
                emotion_encoder_fpaths = glob fs models_dir (run_id @ ''/**/*.hdf5'')
            in if length emotion_encoder_fpaths = 0
               then Raise (Exception (''No emotion encoder models found in '' @
                             path_str models_dir)) st1
               else
                 (let st2 = st1\<lparr>emotion_encoder_box :=
                              repopulate_box (emotion_encoder_box st1)
                                (map (\<lambda>f. (path_name (parent (parent f)), Some f))
                                   emotion_encoder_fpaths)
                                False 0\<rparr>;
                      synthesizer_fpaths = glob fs models_dir (run_id @ ''/synthesizer.pt'')
                  in if length synthesizer_fpaths = 0
                     then Raise (Exception (''No synthesizer models found in '' @
                                   path_str models_dir)) st2
                     else
                       (let st3 = st2\<lparr>synthesizer_box :=
                                    repopulate_box (synthesizer_box st2)
                                      (map (\<lambda>f. (path_name (parent f), Some f))
                                         synthesizer_fpaths)
                                      False 0\<rparr>;
                            vocoder_fpaths = glob fs models_dir (run_id @ ''/vocoder.pt'');
                            vocoder_items =
                              map (\<lambda>f. (path_name (parent f), Some f)) vocoder_fpaths @
                              [(''Griffin-Lim'', None)]
                        in Return (st3\<lparr>vocoder_box :=
                             repopulate_box (vocoder_box st3) vocoder_items False 0\<rparr>)))))"

definition current_vocoder_fpath :: "('m, 'v, 'c) ui \<Rightarrow> path option" where
  "current_vocoder_fpath st = itemData (vocoder_box st) (currentIndex (vocoder_box st))"

subsection \<open>\<^verbatim>\<open>UI.reset_interface\<close> and \<^verbatim>\<open>UI.__init__\<close>\<close>

text \<open>\<^verbatim>\<open>[self.log("") for _ in range(n)]\<close>.\<close>

fun log_blank :: "nat \<Rightarrow> ('m, 'v, 'c) ui \<Rightarrow> ('m, 'v, 'c) ui result" where
  "log_blank 0 st = Return st"
| "log_blank (Suc n) st = and_then (log [] ''newline'' st) (log_blank n)"

definition reset_interface ::
  "('v, 'c) reducer \<Rightarrow> ('m, 'v, 'c) ui \<Rightarrow> ('m, 'v, 'c) ui result" where
  "reset_interface fit_transform st =
     (let st1 = draw_embed None None None ''current'' st;
          st2 = draw_embed None None None ''generated'' st1;
          st3 = draw_spec None ''current'' st2;
          st4 = draw_spec None ''generated'' st3
      in and_then (draw_umap_projections fit_transform [] st4)
           (\<lambda>st5. log_blank max_log_lines
              ((set_loading 0 1 st5)\<lparr>play_button := True,
                                      generate_button := True,
                                      synthesize_button := True,
                                      vocode_button := True,
                                      replay_wav_button := True,
                                      export_wav_button := True\<rparr>)))"

text \<open>
  The fields as \<^verbatim>\<open>__init__\<close> sets them before it calls \<^verbatim>\<open>reset_interface\<close>: new
  widgets are enabled, empty and without text, a new progress bar has no value, the
  flag is \<^verbatim>\<open>False\<close> and the log buffer is empty.
\<close>

definition fresh :: "('m, 'v, 'c) ui" where
  "fresh =
     \<lparr>logs = [], log_window = [], umap_hot = False, first_time_notices = 0,
      loading = \<lparr>bar_value = -1, bar_maximum = 100, textVisible = True\<rparr>,
      speaker_umap_ax = \<lparr>artists = [], title = []\<rparr>,
      emotion_umap_ax = \<lparr>artists = [], title = []\<rparr>,
      utterance_history = empty_box,
      dataset_box = empty_box, speaker_box = empty_box, utterance_box = empty_box,
      speaker_encoder_box = empty_box, emotion_encoder_box = empty_box,
      synthesizer_box = empty_box, vocoder_box = empty_box,
      play_button = False, generate_button = False, synthesize_button = False,
      vocode_button = False, replay_wav_button = False, export_wav_button = False,
      browser_load_button = False, random_dataset_button = False,
      random_speaker_button = False, random_utterance_button = False,
      auto_next_checkbox = False\<rparr>"

definition init :: "('v, 'c) reducer \<Rightarrow> ('m, 'v, 'c) ui result" where
  "init fit_transform = reset_interface fit_transform fresh"

subsection \<open>A session\<close>

text \<open>
  The calls a session makes on the dialog after \<^verbatim>\<open>__init__\<close>. The methods that are
  not listed (\<^verbatim>\<open>setup_audio_devices\<close>, \<^verbatim>\<open>set_audio_device\<close>, \<^verbatim>\<open>play\<close>, \<^verbatim>\<open>stop\<close>,
  \<^verbatim>\<open>record_one\<close>, \<^verbatim>\<open>browse_file\<close>, \<^verbatim>\<open>populate_gen_options\<close>,
  \<^verbatim>\<open>update_seed_textbox\<close>, \<^verbatim>\<open>start\<close>) write the fields above only through calls of
  \<^verbatim>\<open>log\<close> and \<^verbatim>\<open>set_loading\<close>, so each of their runs is a sequence of those two calls.
  A call that raises leaves the state it had reached, and the session goes on from it.
\<close>

datatype ('m, 'v, 'w) call =
    Log string string
  | SetLoading int int
  | DrawSpec "'m option" string
  | DrawEmbed "'v option" "'v option" "string option" string
  | DrawUtterance "('m, 'v) utterance" string
  | DrawUmapProjections "('m, 'v) utterance list"
  | SaveAudioFile string 'w int
  | PopulateBrowser "path option" "string list" int bool "nat \<times> nat \<times> nat"
  | BrowserSelectNext
  | PopulateModels string path
  | RegisterUtterance "('m, 'v) utterance"
  | ResetInterface

fun step ::
  "('v, 'c) reducer \<Rightarrow> filesystem \<Rightarrow> ('m, 'v, 'w) call \<Rightarrow> ('m, 'v, 'c) ui \<Rightarrow>
   ('m, 'v, 'c) ui result" where
  "step rd fs (Log line mode) st = log line mode st"
| "step rd fs (SetLoading v maximum) st = Return (set_loading v maximum st)"
| "step rd fs (DrawSpec sp which) st = Return (draw_spec sp which st)"
| "step rd fs (DrawEmbed se ee nm which) st = Return (draw_embed se ee nm which st)"
| "step rd fs (DrawUtterance u which) st = Return (draw_utterance u which st)"
| "step rd fs (DrawUmapProjections us) st = draw_umap_projections rd us st"
| "step rd fs (SaveAudioFile fpath wav sample_rate) st =
     Return (fst (save_audio_file fpath wav sample_rate (st, [])))"
| "step rd fs (PopulateBrowser root recognized level random rs) st =
     populate_browser fs root recognized level random rs st"
| "step rd fs BrowserSelectNext st = browser_select_next st"
| "step rd fs (PopulateModels run_id models_dir) st = populate_models fs run_id models_dir st"
| "step rd fs (RegisterUtterance u) st = Return (register_utterance u st)"
| "step rd fs ResetInterface st = reset_interface rd st"

fun run ::
  "('v, 'c) reducer \<Rightarrow> filesystem \<Rightarrow> ('m, 'v, 'w) call list \<Rightarrow> ('m, 'v, 'c) ui \<Rightarrow>
   ('m, 'v, 'c) ui" where
  "run rd fs [] st = st"
| "run rd fs (c # cs) st = run rd fs cs (state_of (step rd fs c st))"

text \<open>
  The two fields a statement about the one-shot flag looks at, as a pair.
\<close>

definition flags :: "('m, 'v, 'c) ui \<Rightarrow> bool \<times> nat" where
  "flags st = (umap_hot st, first_time_notices st)"

subsection \<open>Concrete inputs\<close>

text \<open>
  Inputs on which the statements below are evaluated: utterances numbered from 0, each
  by a speaker of its own; a reducer that maps every embedding to the origin; a file
  system with one dataset, one speaker and one recording below \<^verbatim>\<open>data\<close> and with the
  three model files (but no vocoder) of the run \<^verbatim>\<open>run1\<close> below \<^verbatim>\<open>models\<close>.
\<close>

definition sample_utterances :: "nat \<Rightarrow> (unit, unit) utterance list" where
  "sample_utterances n =
     map (\<lambda>i. \<lparr>name = ''utterance'' @ str_nat i, speaker_name = ''speaker'' @ str_nat i,
                spec = (), speaker_embed = (), emotion_embed = Some ()\<rparr>) [0..<n]"

definition origin_reducer :: "(unit, int) reducer" where
  "origin_reducer k embeds = Inr (map (\<lambda>e. (0, 0)) embeds)"

definition sample_fs :: filesystem where
  "sample_fs =
     \<lparr>path_exists = (\<lambda>p. p = [''data'', ''LibriSpeech'']),
      is_dir = (\<lambda>p. p = [''data'', ''LibriSpeech'', ''speaker1'']),
      glob = (\<lambda>p pattern.
        if p = [''data'', ''LibriSpeech''] \<and> pattern = ''*''
        then [p @ [''speaker1''], p @ [''README.txt'']]
        else if p = [''data'', ''LibriSpeech'', ''speaker1''] \<and> pattern = ''**/*.flac''
        then [p @ [''book'', ''take1.flac'']]
        else if p = [''models''] \<and> pattern = ''run1/encoder.pt''
        then [p @ [''run1'', ''encoder.pt'']]
        else if p = [''models''] \<and> pattern = ''run1/**/*.hdf5''
        then [p @ [''run1'', ''emotion'', ''weights'', ''model.hdf5'']]
        else if p = [''models''] \<and> pattern = ''run1/synthesizer.pt''
        then [p @ [''run1'', ''synthesizer.pt'']]
        else [])\<rparr>"

section \<open>Properties\<close>

subsection \<open>The log buffer\<close>

lemma evict_le: "length buf \<le> Suc max_log_lines \<Longrightarrow> length (evict buf) \<le> max_log_lines"
  by (cases buf) (auto simp: evict_def)

lemma wrap_loop_le:
  "length buf \<le> max_log_lines \<Longrightarrow> length (wrap_loop line ls buf) \<le> max_log_lines"
  by (induction ls arbitrary: buf) (simp_all add: evict_le)

lemma log_newline_le:
  "length buf \<le> max_log_lines \<Longrightarrow> length (log_newline line buf) \<le> max_log_lines"
  unfolding log_newline_def Let_def using wrap_loop_le[of buf line]
  by (auto intro!: evict_le)

lemma logs_show_logs [simp]: "logs (show_logs st) = logs st"
  by (simp add: show_logs_def)

text \<open>
  C1. The claim: a line of more than 100 characters logged in mode \<^verbatim>\<open>newline\<close> is stored
  as entries of at most 100 characters whose concatenation is the line. The code
  takes the last entry as \<^verbatim>\<open>line[-res-1:]\<close>, one character more than the remainder:
  for the line of 99 letters \<open>a\<close> followed by \<open>bc\<close> (101 characters), logged into the
  empty buffer, the entries are the first 100 characters and then \<open>bc\<close>, so the
  character \<open>b\<close> is stored twice and the entries do not concatenate to the line.
\<close>

theorem log_long_line_repeats_a_character:
  "let line = replicate 99 (CHR ''a'') @ ''bc'';
       r = log line ''newline'' (fresh :: (unit, unit, unit) ui)
   in length line = 101 \<and> \<not> raised r \<and>
      logs (state_of r) = [replicate 99 (CHR ''a'') @ ''b'', ''bc''] \<and>
      concat (logs (state_of r)) \<noteq> line"
  by code_simp

text \<open>
  C2. In every mode, a buffer of at most \<open>max_log_lines = 5\<close> entries has at most 5
  entries after the call (also when the call raises, and for a mode that is none of
  the three); and a line of at most \<open>max_log_width = 100\<close> characters logged in mode
  \<^verbatim>\<open>newline\<close> into a buffer of exactly 5 entries leaves the old buffer without its
  first entry, followed by the line.
\<close>

theorem log_buffer_bounded:
  "(length (logs st) \<le> max_log_lines \<longrightarrow>
      length (logs (state_of (log line mode st))) \<le> max_log_lines) \<and>
   (length (logs st) = max_log_lines \<and> length line \<le> max_log_width \<longrightarrow>
      \<not> raised (log line ''newline'' st) \<and>
      logs (state_of (log line ''newline'' st)) = tl (logs st) @ [line])"
proof (intro conjI impI)
  assume "length (logs st) \<le> max_log_lines"
  then show "length (logs (state_of (log line mode st))) \<le> max_log_lines"
    by (auto simp: log_def log_newline_le)
next
  assume full: "length (logs st) = max_log_lines \<and> length line \<le> max_log_width"
  then have "logs st \<noteq> []"
    by (auto simp: max_log_lines_def)
  with full show "\<not> raised (log line ''newline'' st)"
    by (simp add: log_def)
  from full show "logs (state_of (log line ''newline'' st)) = tl (logs st) @ [line]"
    by (cases "logs st") (auto simp: log_def log_newline_def evict_def max_log_lines_def)
qed

theorem log_buffer_bounded_witness:
  "length (logs ((fresh :: (unit, unit, unit) ui)\<lparr>logs := [''1'', ''2'', ''3'', ''4'', ''5'']\<rparr>))
     \<le> max_log_lines \<and>
   length (logs ((fresh :: (unit, unit, unit) ui)\<lparr>logs := [''1'', ''2'', ''3'', ''4'', ''5'']\<rparr>))
     = max_log_lines \<and>
   length ''six'' \<le> max_log_width \<and>
   length (logs (state_of (log ''six'' ''newline''
     ((fresh :: (unit, unit, unit) ui)\<lparr>logs := [''1'', ''2'', ''3'', ''4'', ''5'']\<rparr>))))
     \<le> max_log_lines \<and>
   logs (state_of (log ''six'' ''newline''
     ((fresh :: (unit, unit, unit) ui)\<lparr>logs := [''1'', ''2'', ''3'', ''4'', ''5'']\<rparr>)))
     = [''2'', ''3'', ''4'', ''5'', ''six'']"
  using log_buffer_bounded
    [of "(fresh :: (unit, unit, unit) ui)\<lparr>logs := [''1'', ''2'', ''3'', ''4'', ''5'']\<rparr>"
        "''six''" "''newline''"]
  by (simp add: max_log_lines_def max_log_width_def)

text \<open>
  C3. On a buffer that is not empty, mode \<^verbatim>\<open>append\<close> and mode \<^verbatim>\<open>overwrite\<close> return
  normally, keep the number of entries and every entry but the last, and make the last
  entry its old value followed by the line (append), or the line (overwrite).
\<close>

theorem log_append_overwrite:
  "logs st \<noteq> [] \<Longrightarrow>
   (\<not> raised (log line ''append'' st) \<and>
    length (logs (state_of (log line ''append'' st))) = length (logs st) \<and>
    butlast (logs (state_of (log line ''append'' st))) = butlast (logs st) \<and>
    last (logs (state_of (log line ''append'' st))) = last (logs st) @ line) \<and>
   (\<not> raised (log line ''overwrite'' st) \<and>
    length (logs (state_of (log line ''overwrite'' st))) = length (logs st) \<and>
    butlast (logs (state_of (log line ''overwrite'' st))) = butlast (logs st) \<and>
    last (logs (state_of (log line ''overwrite'' st))) = line)"
  by (simp add: log_def)

theorem log_append_overwrite_witness:
  "logs ((fresh :: (unit, unit, unit) ui)\<lparr>logs := [''Loading'', ''Synth'']\<rparr>) \<noteq> [] \<and>
   logs (state_of (log ''...'' ''append''
     ((fresh :: (unit, unit, unit) ui)\<lparr>logs := [''Loading'', ''Synth'']\<rparr>)))
     = [''Loading'', ''Synth...''] \<and>
   logs (state_of (log ''...'' ''overwrite''
     ((fresh :: (unit, unit, unit) ui)\<lparr>logs := [''Loading'', ''Synth'']\<rparr>)))
     = [''Loading'', ''...'']"
  using log_append_overwrite
    [of "(fresh :: (unit, unit, unit) ui)\<lparr>logs := [''Loading'', ''Synth'']\<rparr>" "''...''"]
  by (simp add: log_def)

subsection \<open>The utterance history\<close>

lemma rows_register:
  "rows (utterance_history (register_utterance u st)) =
     take max_saved_utterances ((name u, Some u) # rows (utterance_history st)) @
     drop (Suc max_saved_utterances) ((name u, Some u) # rows (utterance_history st))"
  by (simp add: register_utterance_def Let_def setCurrentIndex_def insertItem_def removeItem_def
      box_count_def)

lemma currentIndex_register:
  "currentIndex (utterance_history (register_utterance u st)) = 0"
  by (simp add: register_utterance_def Let_def setCurrentIndex_def insertItem_def removeItem_def
      box_count_def valid_index_def max_saved_utterances_def)



text \<open>
  C5. Right after \<^verbatim>\<open>register_utterance(u)\<close> the property \<^verbatim>\<open>selected_utterance\<close> is
  \<open>u\<close> itself: the same record, with every field as it was passed in.
\<close>

theorem selected_utterance_after_register:
  "selected_utterance (register_utterance u st) = Some u"
  unfolding selected_utterance_def currentIndex_register
  by (simp add: itemData_def valid_index_def box_count_def rows_register max_saved_utterances_def)

subsection \<open>The one-shot flag\<close>

lemma log_newline_Return:
  "log line ''newline'' st = Return (show_logs (st\<lparr>logs := log_newline line (logs st)\<rparr>))"
  by (simp add: log_def)

lemma flags_log [simp]: "flags (state_of (log line mode st)) = flags st"
  by (simp add: log_def flags_def show_logs_def)

lemma flags_set_loading [simp]: "flags (set_loading v m st) = flags st"
  by (simp add: set_loading_def flags_def)

lemma flags_scatter_loop:
  "(\<And>f s. flags (upd f s) = flags s) \<Longrightarrow> flags (scatter_loop upd n i ps st) = flags st"
  by (induction upd n i ps st rule: scatter_loop.induct) simp_all

lemma length_unique: "length (unique xs) \<le> length xs"
  by (simp add: unique_def)

lemma color_table_few:
  "length us \<le> length colormap \<Longrightarrow>
   color_table (unique (map speaker_name us)) = Some (zip (unique (map speaker_name us)) colormap)"
  using length_unique [of "map speaker_name us"] by (simp add: color_table_def)

text \<open>Below \<open>min_umap_points\<close> utterances a half of the method only writes its message.\<close>

lemma umap_block_few:
  assumes "length us < min_umap_points"
  shows "umap_block rd upd emb ttl us st =
     Return (upd (\<lambda>ax. ax\<lparr>artists := artists ax @
        [Text (''Add '' @ str_nat (min_umap_points - length us) @ '' more points to'' @
           [CHR 0x0A] @ ''generate the projections'')]\<rparr>) (upd ax_clear st))"
proof -
  have "length us \<le> length colormap"
    using assms by (simp add: min_umap_points_def colormap_def)
  then show ?thesis
    using assms by (simp add: umap_block_def color_table_few Let_def del: str_nat.simps)
qed

text \<open>
  A half of the method either leaves the flag and the count as they were, or finds the
  flag unset, sets it and counts one notice.
\<close>

lemma flags_umap_block:
  assumes upd: "\<And>f s. flags (upd f s) = flags s"
  shows "flags (state_of (umap_block rd upd emb ttl us st)) = flags st \<or>
         (\<not> umap_hot st \<and>
          flags (state_of (umap_block rd upd emb ttl us st)) = (True, Suc (first_time_notices st)))"
proof -
  let ?st1 = "upd ax_clear st"
  have st1: "flags ?st1 = flags st"
    by (rule upd)
  then have hot1: "umap_hot ?st1 = umap_hot st"
    and cnt1: "first_time_notices ?st1 = first_time_notices st"
    by (simp_all add: flags_def)
  show ?thesis
  proof (cases "color_table (unique (map speaker_name us))")
    case None
    then show ?thesis
      by (simp add: umap_block_def Let_def st1)
  next
    case (Some colors)
    show ?thesis
    proof (cases "length us < min_umap_points")
      case True
      with Some show ?thesis
        by (simp add: umap_block_def Let_def upd del: str_nat.simps)
    next
      case enough: False
      show ?thesis
      proof (cases "umap_hot st")
        case True
        with Some enough show ?thesis
          by (simp add: umap_block_def Let_def hot1 upd flags_scatter_loop [OF upd]
              split: sum.splits option.splits)
      next
        case False
        obtain s2 where s2: "log first_time_message ''newline'' ?st1 = Return s2"
          by (simp add: log_newline_Return)
        have "flags s2 = flags ?st1"
          using flags_log [of first_time_message "''newline''" ?st1] s2 by simp
        then have "flags (s2\<lparr>umap_hot := True, first_time_notices := first_time_notices s2 + 1\<rparr>)
            = (True, Suc (first_time_notices st))"
          by (simp add: flags_def cnt1)
        with Some enough False show ?thesis
          by (simp add: umap_block_def Let_def hot1 s2 upd flags_scatter_loop [OF upd]
              split: sum.splits option.splits)
      qed
    qed
  qed
qed

lemma flags_speaker_ax [simp]: "flags (speaker_umap_ax_update f s) = flags s"
  by (simp add: flags_def)

lemma flags_emotion_ax [simp]: "flags (emotion_umap_ax_update f s) = flags s"
  by (simp add: flags_def)

lemma flags_draw_umap_projections:
  "flags (state_of (draw_umap_projections rd us st)) = flags st \<or>
   (\<not> umap_hot st \<and>
    flags (state_of (draw_umap_projections rd us st)) = (True, Suc (first_time_notices st)))"
proof (cases "umap_block rd speaker_umap_ax_update (\<lambda>u. Some (speaker_embed u))
          ''Speaker Embedding UMAP'' us st")
  case (Raise e s)
  then show ?thesis
    using flags_umap_block [of speaker_umap_ax_update rd "\<lambda>u. Some (speaker_embed u)"
        "''Speaker Embedding UMAP''" us st]
    by (simp add: draw_umap_projections_def)
next
  case (Return s)
  have a: "flags s = flags st \<or> (\<not> umap_hot st \<and> flags s = (True, Suc (first_time_notices st)))"
    using flags_umap_block [of speaker_umap_ax_update rd "\<lambda>u. Some (speaker_embed u)"
        "''Speaker Embedding UMAP''" us st] Return
    by simp
  have b: "flags (state_of (umap_block rd emotion_umap_ax_update emotion_embed
             ''Emotion Embedding UMAP'' us s)) = flags s \<or>
           (\<not> umap_hot s \<and> flags (state_of (umap_block rd emotion_umap_ax_update emotion_embed
             ''Emotion Embedding UMAP'' us s)) = (True, Suc (first_time_notices s)))"
    by (rule flags_umap_block) simp
  from a b show ?thesis
    unfolding draw_umap_projections_def Return and_then.simps
    by (auto simp: flags_def)
qed

lemma flags_log_blank [simp]: "flags (state_of (log_blank n st)) = flags st"
proof (induction n arbitrary: st)
  case 0
  show ?case by simp
next
  case (Suc n)
  have "flags (show_logs (st\<lparr>logs := log_newline [] (logs st)\<rparr>)) = flags st"
    by (simp add: flags_def show_logs_def)
  with Suc show ?case
    by (simp add: log_newline_Return)
qed

lemma draw_umap_projections_few:
  assumes "length us < min_umap_points"
  shows "flags (state_of (draw_umap_projections rd us st)) = flags st"
  using assms by (simp add: draw_umap_projections_def umap_block_few del: str_nat.simps)

lemma flags_draw_spec [simp]: "flags (draw_spec sp which st) = flags st"
  by (simp add: draw_spec_def flags_def)

lemma flags_draw_embed [simp]: "flags (draw_embed a b c which st) = flags st"
  by (simp add: draw_embed_def)

lemma flags_reset_interface [simp]: "flags (state_of (reset_interface rd st)) = flags st"
proof -
  let ?st4 = "draw_spec None ''generated'' (draw_spec None ''current''
                (draw_embed None None None ''generated'' (draw_embed None None None ''current'' st)))"
  obtain st5 where st5: "draw_umap_projections rd [] ?st4 = Return st5"
    by (simp add: draw_umap_projections_def umap_block_few min_umap_points_def del: str_nat.simps)
  have "flags st5 = flags ?st4"
    using draw_umap_projections_few [of "[]" rd ?st4] st5 by (simp add: min_umap_points_def)
  then have "flags st5 = flags st"
    by simp
  moreover have "flags ((set_loading 0 1 st5)\<lparr>play_button := True, generate_button := True,
      synthesize_button := True, vocode_button := True, replay_wav_button := True,
      export_wav_button := True\<rparr>) = flags st5"
    by (simp add: flags_def set_loading_def)
  ultimately show ?thesis
    by (simp add: reset_interface_def Let_def st5)
qed

lemma flags_utterances_stage [simp]:
  "flags (state_of (utterances_stage fs root level random r3 st)) = flags st"
  by (simp add: utterances_stage_def flags_def split: option.splits)

lemma flags_speakers_stage [simp]:
  "flags (state_of (speakers_stage fs root level random r2 r3 st)) = flags st"
proof -
  have "flags (st\<lparr>speaker_box := b\<rparr>) = flags st" for b
    by (simp add: flags_def)
  then show ?thesis
    by (simp add: speakers_stage_def split: option.splits)
qed

lemma flags_populate_browser [simp]:
  "flags (state_of (populate_browser fs root recognized level random rs st)) = flags st"
proof -
  obtain r1 r2 r3 where rs: "rs = (r1, r2, r3)"
    by (cases rs) auto
  have a: "flags (s\<lparr>browser_load_button := b\<rparr>) = flags s" for s :: "('a, 'b, 'c) ui" and b
    by (simp add: flags_def)
  have b: "flags (s\<lparr>dataset_box := d\<rparr>) = flags s" for s :: "('a, 'b, 'c) ui" and d
    by (simp add: flags_def)
  have c: "flags (s\<lparr>random_utterance_button := True, random_speaker_button := True,
             random_dataset_button := True, utterance_box := u, speaker_box := sp,
             dataset_box := d, browser_load_button := True, auto_next_checkbox := True\<rparr>) = flags s"
    for s :: "('a, 'b, 'c) ui" and u sp d
    by (simp add: flags_def)
  have d: "flags (show_logs (s\<lparr>logs := l\<rparr>)) = flags s" for s :: "('a, 'b, 'c) ui" and l
    by (simp add: flags_def show_logs_def)
  show ?thesis
    unfolding populate_browser_def rs Let_def log_newline_Return
    by (simp add: a b c d split: option.splits)
qed

lemma flags_populate_models [simp]:
  "flags (state_of (populate_models fs run_id models_dir st)) = flags st"
  by (simp add: populate_models_def Let_def flags_def)

lemma flags_register_utterance [simp]: "flags (register_utterance u st) = flags st"
  by (simp add: register_utterance_def Let_def flags_def)

lemma flags_browser_select_next [simp]: "flags (state_of (browser_select_next st)) = flags st"
  by (simp add: browser_select_next_def flags_def)

lemma flags_step:
  "flags (state_of (step rd fs c st)) = flags st \<or>
   (\<not> umap_hot st \<and> flags (state_of (step rd fs c st)) = (True, Suc (first_time_notices st)))"
proof (cases c)
  case (DrawUmapProjections us)
  then show ?thesis
    using flags_draw_umap_projections [of rd us st] by simp
qed (simp_all add: draw_utterance_def save_audio_file_def)

lemma hot_step: "umap_hot st \<Longrightarrow> umap_hot (state_of (step rd fs c st))"
  using flags_step [of rd fs c st] by (auto simp: flags_def)

lemma hot_run: "umap_hot st \<Longrightarrow> umap_hot (run rd fs cs st)"
  by (induction cs arbitrary: st) (simp_all add: hot_step)

lemma once_run:
  "flags st = (False, 0) \<or> flags st = (True, 1) \<Longrightarrow>
   flags (run rd fs cs st) = (False, 0) \<or> flags (run rd fs cs st) = (True, 1)"
proof (induction cs arbitrary: st)
  case Nil
  then show ?case by simp
next
  case (Cons c cs)
  have "flags (state_of (step rd fs c st)) = (False, 0) \<or>
        flags (state_of (step rd fs c st)) = (True, 1)"
    using flags_step [of rd fs c st] Cons.prems by (auto simp: flags_def)
  then show ?case
    using Cons.IH by simp
qed

lemma flags_init: "flags (state_of (init rd)) = (False, 0)"
  unfolding init_def flags_reset_interface by (simp add: flags_def fresh_def)

lemma hot_init: "\<not> umap_hot (state_of (init rd :: ('m, 'v, 'c) ui result))"
proof -
  have "flags (state_of (init rd :: ('m, 'v, 'c) ui result)) = (False, 0)"
    by (rule flags_init)
  then show ?thesis
    by (simp add: flags_def)
qed

lemma once_init:
  "first_time_notices (run rd fs cs (state_of (init rd :: ('m, 'v, 'c) ui result))) \<le> 1"
proof -
  have "flags (state_of (init rd :: ('m, 'v, 'c) ui result)) = (False, 0)"
    by (rule flags_init)
  then have "flags (run rd fs cs (state_of (init rd :: ('m, 'v, 'c) ui result))) = (False, 0) \<or>
             flags (run rd fs cs (state_of (init rd :: ('m, 'v, 'c) ui result))) = (True, 1)"
    by (intro once_run) simp
  then show ?thesis
    by (auto simp: flags_def)
qed

lemma sample_session_hot:
  "umap_hot (run origin_reducer sample_fs
     [DrawUmapProjections (sample_utterances 4) :: (unit, unit, unit) call]
     (state_of (init origin_reducer)))"
  by code_simp

text \<open>
  C6. The flag is \<^verbatim>\<open>False\<close> when \<^verbatim>\<open>__init__\<close> has run; a call that finds it \<^verbatim>\<open>True\<close>
  leaves it \<^verbatim>\<open>True\<close>, whatever the call (also \<^verbatim>\<open>reset_interface\<close>, and
  \<^verbatim>\<open>draw_umap_projections\<close> with any utterances), and so does every sequence of calls;
  and in a session, which starts after \<^verbatim>\<open>__init__\<close>, the "first time" branch of
  \<^verbatim>\<open>draw_umap_projections\<close> runs at most once, so its message is logged at most once.
\<close>

theorem umap_hot_one_shot:
  "\<not> umap_hot (state_of (init rd)) \<and>
   (umap_hot st \<longrightarrow> umap_hot (state_of (step rd fs c st))) \<and>
   (umap_hot st \<longrightarrow> umap_hot (run rd fs cs st)) \<and>
   first_time_notices (run rd fs cs' (state_of (init rd))) \<le> 1"
proof (intro conjI impI)
  show "\<not> umap_hot (state_of (init rd))"
    by (rule hot_init)
  show "umap_hot (state_of (step rd fs c st))" if "umap_hot st"
    using that by (rule hot_step)
  show "umap_hot (run rd fs cs st)" if "umap_hot st"
    using that by (rule hot_run)
  show "first_time_notices (run rd fs cs' (state_of (init rd))) \<le> 1"
    by (rule once_init)
qed

theorem umap_hot_one_shot_witness:
  "umap_hot (run origin_reducer sample_fs
     [DrawUmapProjections (sample_utterances 4) :: (unit, unit, unit) call]
     (state_of (init origin_reducer))) \<and>
   umap_hot (state_of (step origin_reducer sample_fs (ResetInterface :: (unit, unit, unit) call)
     (run origin_reducer sample_fs
        [DrawUmapProjections (sample_utterances 4) :: (unit, unit, unit) call]
        (state_of (init origin_reducer))))) \<and>
   umap_hot (run origin_reducer sample_fs
     [ResetInterface, DrawUmapProjections [], DrawUmapProjections (sample_utterances 5) ::
        (unit, unit, unit) call]
     (run origin_reducer sample_fs
        [DrawUmapProjections (sample_utterances 4) :: (unit, unit, unit) call]
        (state_of (init origin_reducer)))) \<and>
   first_time_notices (run origin_reducer sample_fs
     [DrawUmapProjections (sample_utterances 4), ResetInterface,
      DrawUmapProjections (sample_utterances 5) :: (unit, unit, unit) call]
     (state_of (init origin_reducer))) \<le> 1"
  using umap_hot_one_shot
    [of origin_reducer
        "run origin_reducer sample_fs
           [DrawUmapProjections (sample_utterances 4) :: (unit, unit, unit) call]
           (state_of (init origin_reducer))"
        sample_fs "ResetInterface :: (unit, unit, unit) call"
        "[ResetInterface, DrawUmapProjections [], DrawUmapProjections (sample_utterances 5) ::
            (unit, unit, unit) call]"
        "[DrawUmapProjections (sample_utterances 4), ResetInterface,
          DrawUmapProjections (sample_utterances 5) :: (unit, unit, unit) call]"]
    sample_session_hot
  by blast

subsection \<open>The browser\<close>

lemma rows_addItem: "rows (addItem t d box) = rows box @ [(t, d)]"
  by (simp add: addItem_def insertItem_def box_count_def)

lemma rows_fold_addItem:
  "rows (fold (\<lambda>(t, d). addItem t d) entries box) = rows box @ entries"
  by (induction entries arbitrary: box) (auto simp: rows_addItem)

text \<open>Repopulating a box leaves exactly the given entries in it, in their order.\<close>

lemma rows_repopulate_box: "rows (repopulate_box box entries random r) = entries"
  by (simp add: repopulate_box_def Let_def setDisabled_def setCurrentIndex_def
      rows_fold_addItem clear_def)




subsection \<open>Saving audio\<close>



subsection \<open>The model boxes\<close>

text \<open>
  C9. \<^verbatim>\<open>populate_models\<close> raises exactly when the speaker encoder glob, the emotion
  encoder glob or the synthesizer glob finds no file; when it returns, the vocoder box
  holds the vocoder files found followed by the entry \<^verbatim>\<open>Griffin-Lim\<close> with no path,
  so the box is never empty and its last entry is that one, whether or not a vocoder
  file exists.
\<close>

theorem populate_models_raises_iff:
  "raised (populate_models fs run_id models_dir st) =
     (glob fs models_dir (run_id @ ''/encoder.pt'') = [] \<or>
      glob fs models_dir (run_id @ ''/**/*.hdf5'') = [] \<or>
      glob fs models_dir (run_id @ ''/synthesizer.pt'') = []) \<and>
   (\<not> raised (populate_models fs run_id models_dir st) \<longrightarrow>
      rows (vocoder_box (state_of (populate_models fs run_id models_dir st))) =
        map (\<lambda>f. (path_name (parent f), Some f)) (glob fs models_dir (run_id @ ''/vocoder.pt'')) @
        [(''Griffin-Lim'', None)] \<and>
      rows (vocoder_box (state_of (populate_models fs run_id models_dir st))) \<noteq> [] \<and>
      last (rows (vocoder_box (state_of (populate_models fs run_id models_dir st)))) =
        (''Griffin-Lim'', None))"
  by (simp add: populate_models_def Let_def rows_repopulate_box)

theorem populate_models_raises_iff_witness:
  "\<not> raised (populate_models sample_fs ''run1'' [''models''] (fresh :: (unit, unit, unit) ui)) \<and>
   glob sample_fs [''models''] (''run1'' @ ''/vocoder.pt'') = [] \<and>
   rows (vocoder_box (state_of (populate_models sample_fs ''run1'' [''models'']
     (fresh :: (unit, unit, unit) ui)))) = [(''Griffin-Lim'', None)] \<and>
   current_vocoder_fpath (state_of (populate_models sample_fs ''run1'' [''models'']
     (fresh :: (unit, unit, unit) ui))) = None"
  using populate_models_raises_iff
    [of sample_fs "''run1''" "[''models'']" "fresh :: (unit, unit, unit) ui"]
  by code_simp

subsection \<open>The projections\<close>

lemma artists_scatter_speaker:
  "artists (speaker_umap_ax (scatter_loop speaker_umap_ax_update n i ps st)) =
     artists (speaker_umap_ax st) @ map (\<lambda>((x, y), c, m). Scatter x y c m) ps"
  by (induction ps arbitrary: i st) (auto simp: set_loading_def)

lemma artists_scatter_emotion:
  "artists (emotion_umap_ax (scatter_loop emotion_umap_ax_update n i ps st)) =
     artists (emotion_umap_ax st) @ map (\<lambda>((x, y), c, m). Scatter x y c m) ps"
  by (induction ps arbitrary: i st) (auto simp: set_loading_def)

lemma speaker_ax_scatter_emotion:
  "speaker_umap_ax (scatter_loop emotion_umap_ax_update n i ps st) = speaker_umap_ax st"
  by (induction ps arbitrary: i st) (auto simp: set_loading_def)

lemma hot_scatter_loop:
  "(\<And>f s. umap_hot (upd f s) = umap_hot s) \<Longrightarrow>
   umap_hot (scatter_loop upd n i ps st) = umap_hot st"
  by (induction upd n i ps st rule: scatter_loop.induct) (simp_all add: set_loading_def)

lemma lookup_all_total:
  "set ks \<subseteq> fst ` set t \<Longrightarrow> \<exists>cs. lookup_all t ks = Some cs \<and> length cs = length ks"
proof (induction ks)
  case Nil
  show ?case by simp
next
  case (Cons k ks)
  then obtain cs where cs: "lookup_all t ks = Some cs" "length cs = length ks"
    by auto
  from Cons.prems have "k \<in> fst ` set t"
    by simp
  then obtain c where "map_of t k = Some c"
    by (cases "map_of t k") (auto simp: map_of_eq_None_iff)
  with cs show ?case
    by simp
qed

text \<open>With no more speakers than colormap rows every utterance gets its colour.\<close>

lemma color_lookup:
  assumes "length (unique (map speaker_name us)) \<le> length colormap"
  shows "\<exists>cs. color_table (unique (map speaker_name us)) =
            Some (zip (unique (map speaker_name us)) colormap) \<and>
          lookup_all (zip (unique (map speaker_name us)) colormap) (map speaker_name us) = Some cs \<and>
          length cs = length us"
proof -
  let ?sp = "unique (map speaker_name us)"
  have "map fst (zip ?sp colormap) = ?sp"
    using assms by (simp add: map_fst_zip_take)
  then have "fst ` set (zip ?sp colormap) = set ?sp"
    by (metis set_map)
  moreover have "set ?sp = set (map speaker_name us)"
    by (simp add: unique_def)
  ultimately have "set (map speaker_name us) \<subseteq> fst ` set (zip ?sp colormap)"
    by simp
  from lookup_all_total [OF this] assms show ?thesis
    by (auto simp: color_table_def)
qed

lemma umap_block_enough:
  assumes enough: "min_umap_points \<le> length us"
    and tbl: "color_table (unique (map speaker_name us)) = Some t"
    and cs: "lookup_all t (map speaker_name us) = Some cs"
    and rd: "rd (ceil_sqrt (length us)) (map emb us) = Inr ps"
  shows "\<exists>s. umap_hot s \<and>
           speaker_umap_ax s = speaker_umap_ax (upd ax_clear st) \<and>
           emotion_umap_ax s = emotion_umap_ax (upd ax_clear st) \<and>
           umap_block rd upd emb ttl us st =
             Return (set_loading 0 1 (upd (\<lambda>ax. ax\<lparr>title := ttl\<rparr>)
               (scatter_loop upd (length ps) 0 (zip ps (zip cs (map marker_of us))) s)))"
proof -
  let ?st1 = "upd ax_clear st"
  show ?thesis
  proof (cases "umap_hot ?st1")
    case True
    with enough tbl cs rd have "umap_block rd upd emb ttl us st =
        Return (set_loading 0 1 (upd (\<lambda>ax. ax\<lparr>title := ttl\<rparr>)
          (scatter_loop upd (length ps) 0 (zip ps (zip cs (map marker_of us))) ?st1)))"
      by (simp add: umap_block_def Let_def)
    with True show ?thesis
      by blast
  next
    case False
    let ?l = "show_logs (?st1\<lparr>logs := log_newline first_time_message (logs ?st1)\<rparr>)"
    let ?s = "?l\<lparr>umap_hot := True, first_time_notices := first_time_notices ?l + 1\<rparr>"
    from False enough tbl cs rd have "umap_block rd upd emb ttl us st =
        Return (set_loading 0 1 (upd (\<lambda>ax. ax\<lparr>title := ttl\<rparr>)
          (scatter_loop upd (length ps) 0 (zip ps (zip cs (map marker_of us))) ?s)))"
      by (simp add: umap_block_def Let_def log_newline_Return)
    moreover have "umap_hot ?s" "speaker_umap_ax ?s = speaker_umap_ax ?st1"
      "emotion_umap_ax ?s = emotion_umap_ax ?st1"
      by (simp_all add: show_logs_def)
    ultimately show ?thesis
      by blast
  qed
qed

text \<open>
  What the method does where the claim C10 holds. Below \<open>min_umap_points\<close> utterances
  it returns normally, each axes shows the message alone, and the flag and the count
  of notices are as before (\<open>umap_block_few\<close>, \<open>draw_umap_projections_few\<close>). From
  \<open>min_umap_points\<close> utterances on, when their speakers are no more than the colormap
  has rows and the reducer returns, the flag is set and each axes shows one point per
  row of the projection, paired with the utterances in their order.
\<close>

lemma draw_umap_projections_enough:
  assumes enough: "min_umap_points \<le> length us"
    and colours: "length (unique (map speaker_name us)) \<le> length colormap"
    and rd1: "rd (ceil_sqrt (length us)) (map (\<lambda>u. Some (speaker_embed u)) us) = Inr ps"
    and rd2: "rd (ceil_sqrt (length us)) (map emotion_embed us) = Inr qs"
  shows "\<exists>s cs. draw_umap_projections rd us st = Return s \<and> umap_hot s \<and> length cs = length us \<and>
           artists (speaker_umap_ax s) =
             map (\<lambda>((x, y), c, m). Scatter x y c m) (zip ps (zip cs (map marker_of us))) \<and>
           artists (emotion_umap_ax s) =
             map (\<lambda>((x, y), c, m). Scatter x y c m) (zip qs (zip cs (map marker_of us)))"
proof -
  from color_lookup [OF colours] obtain cs where
    tbl: "color_table (unique (map speaker_name us)) =
            Some (zip (unique (map speaker_name us)) colormap)"
    and cs: "lookup_all (zip (unique (map speaker_name us)) colormap) (map speaker_name us) = Some cs"
    and len: "length cs = length us"
    by blast
  let ?pts = "\<lambda>ps. zip ps (zip cs (map marker_of us))"
  let ?draw = "map (\<lambda>((x, y), c, m). Scatter x y c m)"
  from umap_block_enough [where upd = speaker_umap_ax_update and st = st
      and ttl = "''Speaker Embedding UMAP''" and emb = "\<lambda>u. Some (speaker_embed u)"
      and us = us and rd = rd, OF enough tbl cs rd1]
  obtain s1 where ax1: "speaker_umap_ax s1 = speaker_umap_ax (speaker_umap_ax_update ax_clear st)"
    and b1: "umap_block rd speaker_umap_ax_update (\<lambda>u. Some (speaker_embed u))
               ''Speaker Embedding UMAP'' us st =
             Return (set_loading 0 1
               (speaker_umap_ax_update (\<lambda>ax. ax\<lparr>title := ''Speaker Embedding UMAP''\<rparr>)
                  (scatter_loop speaker_umap_ax_update (length ps) 0 (?pts ps) s1)))"
    by blast
  let ?m = "set_loading 0 1
              (speaker_umap_ax_update (\<lambda>ax. ax\<lparr>title := ''Speaker Embedding UMAP''\<rparr>)
                 (scatter_loop speaker_umap_ax_update (length ps) 0 (?pts ps) s1))"
  have m_sp: "artists (speaker_umap_ax ?m) = ?draw (?pts ps)"
    by (simp add: set_loading_def artists_scatter_speaker ax1 ax_clear_def)
  from umap_block_enough [where upd = emotion_umap_ax_update and st = ?m
      and ttl = "''Emotion Embedding UMAP''" and emb = emotion_embed
      and us = us and rd = rd, OF enough tbl cs rd2]
  obtain s2 where hot2: "umap_hot s2"
    and ax2: "speaker_umap_ax s2 = speaker_umap_ax (emotion_umap_ax_update ax_clear ?m)"
       "emotion_umap_ax s2 = emotion_umap_ax (emotion_umap_ax_update ax_clear ?m)"
    and b2: "umap_block rd emotion_umap_ax_update emotion_embed
               ''Emotion Embedding UMAP'' us ?m =
             Return (set_loading 0 1
               (emotion_umap_ax_update (\<lambda>ax. ax\<lparr>title := ''Emotion Embedding UMAP''\<rparr>)
                  (scatter_loop emotion_umap_ax_update (length qs) 0 (?pts qs) s2)))"
    by blast
  let ?e = "set_loading 0 1
              (emotion_umap_ax_update (\<lambda>ax. ax\<lparr>title := ''Emotion Embedding UMAP''\<rparr>)
                 (scatter_loop emotion_umap_ax_update (length qs) 0 (?pts qs) s2))"
  have res: "draw_umap_projections rd us st = Return ?e"
    by (simp only: draw_umap_projections_def b1 and_then.simps b2)
  have sp2: "speaker_umap_ax s2 = speaker_umap_ax ?m"
    using ax2(1) by simp
  have e_sp: "artists (speaker_umap_ax ?e) = ?draw (?pts ps)"
    using m_sp by (simp add: set_loading_def speaker_ax_scatter_emotion sp2)
  have e_em: "artists (emotion_umap_ax ?e) = ?draw (?pts qs)"
    by (simp add: set_loading_def artists_scatter_emotion ax2(2) ax_clear_def)
  have e_hot: "umap_hot ?e"
    using hot2 by (simp add: set_loading_def hot_scatter_loop)
  from res e_hot len e_sp e_em show ?thesis
    by blast
qed

text \<open>
  C10. The claim: for every set of at least \<open>min_umap_points = 4\<close> utterances a
  projection is computed and one point per utterance is plotted. The method gives
  every speaker a row of the colormap before it looks at the number of utterances, and
  the colormap has fourteen rows: for fifteen utterances by fifteen speakers
  \<^verbatim>\<open>colormap[14]\<close> raises \<^verbatim>\<open>IndexError\<close>, no projection is computed and nothing is
  plotted.
\<close>

theorem draw_umap_projections_fifteen_speakers:
  "length (sample_utterances 15) = 15 \<and>
   length (unique (map speaker_name (sample_utterances 15))) = 15 \<and>
   length colormap = 14 \<and>
   draw_umap_projections origin_reducer (sample_utterances 15) (fresh :: (unit, unit, int) ui) =
     Raise IndexError fresh"
  by code_simp

end
